theory Spec2Isabelle
  imports Main
begin

section \<open>Token lifecycle and credential checks of the fastapi-auth example\<close>

text \<open>
  The development follows \<^verbatim>\<open>src/core/security.py\<close>, \<^verbatim>\<open>src/auth/service.py\<close>,
  \<^verbatim>\<open>src/auth/exceptions.py\<close>, \<^verbatim>\<open>src/auth/router.py\<close>,
  \<^verbatim>\<open>src/core/dependencies.py\<close> and \<^verbatim>\<open>src/users/crud.py\<close>.
  Exceptions are values of a sum type (\<open>Inl\<close> is the raised exception), every read of
  the wall clock is an explicit argument, and the user table is a list of rows behind a
  driver with a bounded integer type.
\<close>

subsection \<open>Settings (\<^verbatim>\<open>src/core/config.py\<close>)\<close>

text \<open>
  The signing algorithm ranges over the HMAC algorithms of the token library, the ones
  for which a shared secret string is a key.
\<close>

datatype algorithm = HS256 | HS384 | HS512

record settings =
  SECRET_KEY :: string
  ALGORITHM :: algorithm
  ACCESS_TOKEN_EXPIRE_MINUTES :: int
  REFRESH_TOKEN_EXPIRE_DAYS :: int

definition default_settings :: settings where
  "default_settings =
     \<lparr> SECRET_KEY = ''your-secret-key-change-in-production-minimum-32-characters-required'',
       ALGORITHM = HS256,
       ACCESS_TOKEN_EXPIRE_MINUTES = 30,
       REFRESH_TOKEN_EXPIRE_DAYS = 7 \<rparr>"

subsection \<open>The token library (\<^verbatim>\<open>jose.jwt\<close>)\<close>

text \<open>
  The library is not part of the repository; this is a model of the two calls the
  program makes. A token is either a compact JWS, given by its header algorithm, its
  claims and the secret under which its signature verifies (an ideal MAC: a signature
  verifies under the key that made it and under no other), or a string that is not a
  compact JWS. The claims of a JWS are the four entries the program writes: a string
  \<open>sub\<close>, integers \<open>exp\<close> and \<open>iat\<close>, and a string \<open>type\<close>. A token stands for the
  string on the wire; the program never takes a token apart other than through
  \<^verbatim>\<open>jwt.decode\<close>.
\<close>

record claims =
  c_sub :: string
  c_exp :: int
  c_iat :: int
  c_type :: string

datatype token = Jws algorithm claims string | NotJws string

datatype jose_error =
    MalformedJws
  | AlgorithmNotAllowed
  | SignatureVerificationFailed
  | ExpiredSignatureError

text \<open>\<^verbatim>\<open>jwt.encode(payload, key, algorithm=alg)\<close>.\<close>

definition jwt_encode :: "claims \<Rightarrow> string \<Rightarrow> algorithm \<Rightarrow> token" where
  "jwt_encode payload key alg = Jws alg payload key"

text \<open>
  \<^verbatim>\<open>jwt.decode(token, key, algorithms=algs)\<close>, called when the clock shows \<open>now\<close>
  microseconds since the epoch. The library loads the token, checks the header
  algorithm against \<open>algs\<close>, verifies the signature, and then validates the claims. Its
  expiry check reads the clock in whole seconds (\<^verbatim>\<open>timegm\<close> of the UTC time tuple)
  and raises \<^verbatim>\<open>ExpiredSignatureError\<close> when \<^verbatim>\<open>exp < now\<close>.
\<close>

fun jwt_decode :: "token \<Rightarrow> string \<Rightarrow> algorithm list \<Rightarrow> nat \<Rightarrow> jose_error + claims" where
  "jwt_decode (NotJws s) key algs now = Inl MalformedJws"
| "jwt_decode (Jws alg payload k) key algs now =
     (if alg \<notin> set algs then Inl AlgorithmNotAllowed
      else if k \<noteq> key then Inl SignatureVerificationFailed
      else if c_exp payload < int (now div 1000000) then Inl ExpiredSignatureError
      else Inr payload)"

subsection \<open>Exceptions\<close>

datatype token_kind = Access | Refresh

text \<open>The three messages with which \<^verbatim>\<open>decode_token\<close> raises \<^verbatim>\<open>JWTError\<close>.\<close>

datatype jwt_message =
    Invalid_token jose_error
  | Invalid_token_payload
  | Invalid_token_type token_kind token_kind

text \<open>
  The detail of an HTTP exception is a literal of the source or \<^verbatim>\<open>str(e)\<close> of a
  caught \<^verbatim>\<open>JWTError\<close>.
\<close>

datatype detail = Text string | Str_of jwt_message

datatype exception_class =
    HTTPException_class
  | AuthenticationError_class
  | InactiveUserError_class

record http_exception =
  exc_class :: exception_class
  status_code :: nat
  detail :: detail
  headers :: "(string \<times> string) list"

text \<open>
  \<open>ValueError\<close> is raised by \<^verbatim>\<open>int(s)\<close> and \<^verbatim>\<open>str(n)\<close>, \<open>OverflowError\<close> by the
  \<^verbatim>\<open>datetime\<close> arithmetic, \<open>DriverError\<close> by the database driver on an integer outside
  its range; \<open>HasherError\<close> stands for whatever the password library raises.
\<close>

datatype exn =
    JWTError jwt_message
  | HTTPError http_exception
  | ValueError
  | OverflowError
  | DriverError
  | HasherError string

definition HTTPException :: "nat \<Rightarrow> detail \<Rightarrow> (string \<times> string) list \<Rightarrow> http_exception" where
  "HTTPException code d hs =
     \<lparr> exc_class = HTTPException_class, status_code = code, detail = d, headers = hs \<rparr>"

definition HTTP_401_UNAUTHORIZED :: nat where "HTTP_401_UNAUTHORIZED = 401"
definition HTTP_403_FORBIDDEN :: nat where "HTTP_403_FORBIDDEN = 403"
definition HTTP_404_NOT_FOUND :: nat where "HTTP_404_NOT_FOUND = 404"

text \<open>\<^verbatim>\<open>src/auth/exceptions.py\<close>.\<close>

definition AuthenticationError :: "string \<Rightarrow> http_exception" where
  "AuthenticationError d =
     (HTTPException HTTP_401_UNAUTHORIZED (Text d) [(''WWW-Authenticate'', ''Bearer'')])
       \<lparr> exc_class := AuthenticationError_class \<rparr>"

definition InactiveUserError :: http_exception where
  "InactiveUserError =
     (AuthenticationError ''Inactive user account'') \<lparr> exc_class := InactiveUserError_class \<rparr>"

subsection \<open>Clock and timestamps\<close>

text \<open>
  A \<^verbatim>\<open>datetime\<close> obtained from \<^verbatim>\<open>datetime.now(timezone.utc)\<close> is the number of
  microseconds since the epoch, at most \<open>datetime_max\<close> (the last microsecond of the
  year 9999). A \<^verbatim>\<open>timedelta\<close> is an integer number of microseconds; its constructor
  raises \<^verbatim>\<open>OverflowError\<close> when the number of days leaves the range of \<open>999999999\<close>
  days either way, and so does the sum of a \<^verbatim>\<open>datetime\<close> and a \<^verbatim>\<open>timedelta\<close>
  that leaves the years 1 to 9999.
\<close>

type_synonym datetime = nat

definition datetime_min :: int where
  "datetime_min = - 62135596800000000"

definition datetime_max :: int where
  "datetime_max = 253402300799999999"

definition timedelta_minutes :: "int \<Rightarrow> exn + int" where
  "timedelta_minutes m =
     (if m div 1440 < - 999999999 \<or> 999999999 < m div 1440 then Inl OverflowError
      else Inr (m * 60 * 1000000))"

definition timedelta_days :: "int \<Rightarrow> exn + int" where
  "timedelta_days d =
     (if d < - 999999999 \<or> 999999999 < d then Inl OverflowError
      else Inr (d * 86400 * 1000000))"

definition datetime_add :: "datetime \<Rightarrow> int \<Rightarrow> exn + int" where
  "datetime_add now delta =
     (if int now + delta < datetime_min \<or> datetime_max < int now + delta then Inl OverflowError
      else Inr (int now + delta))"

text \<open>\<^verbatim>\<open>n.bit_length()\<close>.\<close>

fun bit_length :: "nat \<Rightarrow> nat" where
  "bit_length n = (if n = 0 then 0 else Suc (bit_length (n div 2)))"

declare bit_length.simps [simp del]

text \<open>
  \<^verbatim>\<open>int(d.timestamp())\<close> for a \<^verbatim>\<open>datetime\<close> \<open>d\<close> at \<open>us\<close> microseconds after the
  epoch. \<^verbatim>\<open>timestamp()\<close> is the quotient \<open>us / 10\<^sup>6\<close> rounded to the nearest double
  (ties to even), and \<^verbatim>\<open>int\<close> truncates it. With \<open>x\<close> whole seconds and \<open>k\<close>
  microseconds, the doubles just below \<open>x + 1\<close> are \<open>2 ^ (bit_length x - 53)\<close> apart, so
  the quotient rounds to \<open>x + 1\<close> exactly when \<open>1 - k / 10\<^sup>6\<close> is at most half of that;
  otherwise it rounds to a double between \<open>x\<close> and \<open>x + 1\<close>, which truncates to \<open>x\<close>.
  This is exact for every \<^verbatim>\<open>datetime\<close> (there \<open>x < 2 ^ 38\<close>).
\<close>

definition timestamp_seconds :: "nat \<Rightarrow> nat" where
  "timestamp_seconds us =
     (let x = us div 1000000; k = us mod 1000000
      in if (1000000 - k) * 2 ^ (54 - bit_length x) \<le> 1000000 then x + 1 else x)"

text \<open>Before the epoch the quotient is negative and \<^verbatim>\<open>int\<close> truncates towards zero.\<close>

definition timestamp_int :: "int \<Rightarrow> int" where
  "timestamp_int us =
     (if 0 \<le> us then int (timestamp_seconds (nat us)) else - int (timestamp_seconds (nat (- us))))"

subsection \<open>Python's \<^verbatim>\<open>str\<close> and \<^verbatim>\<open>int\<close> on decimal literals\<close>

text \<open>
  Conversions between \<^verbatim>\<open>int\<close> and \<^verbatim>\<open>str\<close> raise \<^verbatim>\<open>ValueError\<close> beyond 4300
  digits (the interpreter's default limit).
\<close>

definition int_max_str_digits :: nat where
  "int_max_str_digits = 4300"

definition digit_char :: "nat \<Rightarrow> char" where
  "digit_char d = ''0123456789'' ! d"

fun str_nat :: "nat \<Rightarrow> string" where
  "str_nat n = (if n < 10 then [digit_char n] else str_nat (n div 10) @ [digit_char (n mod 10)])"

declare str_nat.simps [simp del]

text \<open>The decimal digits of an integer, with a minus sign when it is negative.\<close>

definition decimal :: "int \<Rightarrow> string" where
  "decimal n = (if n < 0 then CHR ''-'' # str_nat (nat (- n)) else str_nat (nat n))"

text \<open>\<^verbatim>\<open>str(n)\<close> for an integer \<open>n\<close>; \<open>None\<close> is the \<^verbatim>\<open>ValueError\<close> of the digit limit.\<close>

definition py_str :: "int \<Rightarrow> string option" where
  "py_str n =
     (if int_max_str_digits < length (str_nat (nat \<bar>n\<bar>)) then None else Some (decimal n))"

definition is_digit :: "char \<Rightarrow> bool" where
  "is_digit c = (48 \<le> (of_char c :: nat) \<and> (of_char c :: nat) \<le> 57)"

definition digit_val :: "char \<Rightarrow> nat" where
  "digit_val c = (of_char c :: nat) - 48"

text \<open>
  A string is a list of code points below 256. Before parsing, \<^verbatim>\<open>int(s)\<close> leaves the
  code points below 127 as they are and replaces every other one: Unicode white space
  (here \<open>0x85\<close> and \<open>0xA0\<close>) by a blank, a Unicode decimal digit by its ASCII digit (there
  is none below 256), anything else by a question mark.
\<close>

definition to_ascii :: "char \<Rightarrow> char" where
  "to_ascii c =
     (let n = (of_char c :: nat)
      in if n < 127 then c else if n = 133 \<or> n = 160 then CHR '' '' else CHR ''?'')"

text \<open>
  The white space that the parser skips on both sides of the literal: blank, tab, line
  feed, vertical tab, form feed and carriage return.
\<close>

definition is_space :: "char \<Rightarrow> bool" where
  "is_space c = (let n = (of_char c :: nat) in (9 \<le> n \<and> n \<le> 13) \<or> n = 32)"

definition strip :: "string \<Rightarrow> string" where
  "strip s = rev (dropWhile is_space (rev (dropWhile is_space s)))"

text \<open>
  The digits of a literal: a digit first, then digits, where a single underscore may
  stand between two digits.
\<close>

fun int_digits :: "nat \<Rightarrow> string \<Rightarrow> nat option" where
  "int_digits acc [] = Some acc"
| "int_digits acc [c] = (if is_digit c then Some (10 * acc + digit_val c) else None)"
| "int_digits acc (c # d # cs) =
     (if is_digit c then int_digits (10 * acc + digit_val c) (d # cs)
      else if c = CHR ''_'' \<and> is_digit d then int_digits acc (d # cs)
      else None)"

definition int_unsigned :: "string \<Rightarrow> nat option" where
  "int_unsigned s =
     (case s of
        [] \<Rightarrow> None
      | c # cs \<Rightarrow>
          if \<not> is_digit c then None
          else if int_max_str_digits < length (filter is_digit (c # cs)) then None
          else int_digits 0 (c # cs))"

text \<open>
  \<^verbatim>\<open>int(s)\<close> for a string \<open>s\<close>: \<open>None\<close> is the \<^verbatim>\<open>ValueError\<close> that Python raises
  on a string that is not a decimal literal or has too many digits.
\<close>

definition py_int :: "string \<Rightarrow> int option" where
  "py_int s =
     (case strip (map to_ascii s) of
        [] \<Rightarrow> None
      | c # cs \<Rightarrow>
          if c = CHR ''-'' then map_option (\<lambda>n. - int n) (int_unsigned cs)
          else if c = CHR ''+'' then map_option int (int_unsigned cs)
          else map_option int (int_unsigned (c # cs)))"

subsection \<open>Minting and decoding (\<^verbatim>\<open>src/core/security.py\<close>)\<close>

record TokenPayload =
  sub :: string
  exp :: int
  iat :: int
  type :: token_kind

text \<open>
  \<^verbatim>\<open>TokenPayload(**payload)\<close>: on claims of the shape above, validation fails exactly
  when \<open>type\<close> is neither literal.
\<close>

definition TokenPayload_init :: "claims \<Rightarrow> TokenPayload option" where
  "TokenPayload_init payload =
     (if c_type payload = ''access'' then
        Some \<lparr> sub = c_sub payload, exp = c_exp payload, iat = c_iat payload, type = Access \<rparr>
      else if c_type payload = ''refresh'' then
        Some \<lparr> sub = c_sub payload, exp = c_exp payload, iat = c_iat payload, type = Refresh \<rparr>
      else None)"

text \<open>
  \<open>now\<close> is the clock the function reads. The sum \<^verbatim>\<open>now + timedelta(...)\<close> is
  evaluated first and may raise \<^verbatim>\<open>OverflowError\<close>; \<^verbatim>\<open>str(user_id)\<close> is evaluated
  next and may raise \<^verbatim>\<open>ValueError\<close>.
\<close>

definition create_access_token :: "settings \<Rightarrow> int \<Rightarrow> datetime \<Rightarrow> exn + token" where
  "create_access_token cfg user_id now =
     (case timedelta_minutes (ACCESS_TOKEN_EXPIRE_MINUTES cfg) of
        Inl x \<Rightarrow> Inl x
      | Inr delta \<Rightarrow>
          (case datetime_add now delta of
             Inl x \<Rightarrow> Inl x
           | Inr expires_at \<Rightarrow>
               (case py_str user_id of
                  None \<Rightarrow> Inl ValueError
                | Some s \<Rightarrow>
                    Inr (jwt_encode
                          \<lparr> c_sub = s,
                            c_exp = timestamp_int expires_at,
                            c_iat = timestamp_int (int now),
                            c_type = ''access'' \<rparr>
                          (SECRET_KEY cfg) (ALGORITHM cfg)))))"

definition create_refresh_token :: "settings \<Rightarrow> int \<Rightarrow> datetime \<Rightarrow> exn + token" where
  "create_refresh_token cfg user_id now =
     (case timedelta_days (REFRESH_TOKEN_EXPIRE_DAYS cfg) of
        Inl x \<Rightarrow> Inl x
      | Inr delta \<Rightarrow>
          (case datetime_add now delta of
             Inl x \<Rightarrow> Inl x
           | Inr expires_at \<Rightarrow>
               (case py_str user_id of
                  None \<Rightarrow> Inl ValueError
                | Some s \<Rightarrow>
                    Inr (jwt_encode
                          \<lparr> c_sub = s,
                            c_exp = timestamp_int expires_at,
                            c_iat = timestamp_int (int now),
                            c_type = ''refresh'' \<rparr>
                          (SECRET_KEY cfg) (ALGORITHM cfg)))))"

text \<open>\<open>now\<close> is the clock at the call of \<^verbatim>\<open>jwt.decode\<close>.\<close>

definition decode_token :: "settings \<Rightarrow> token \<Rightarrow> token_kind \<Rightarrow> datetime \<Rightarrow> exn + TokenPayload" where
  "decode_token cfg tok expected_type now =
     (case jwt_decode tok (SECRET_KEY cfg) [ALGORITHM cfg] now of
        Inl e \<Rightarrow> Inl (JWTError (Invalid_token e))
      | Inr payload \<Rightarrow>
          (case TokenPayload_init payload of
             None \<Rightarrow> Inl (JWTError Invalid_token_payload)
           | Some token_payload \<Rightarrow>
               if type token_payload \<noteq> expected_type
               then Inl (JWTError (Invalid_token_type expected_type (type token_payload)))
               else Inr token_payload))"

subsection \<open>Password verification (\<^verbatim>\<open>passlib\<close>)\<close>

text \<open>
  The password context is a library object; the program only calls its \<^verbatim>\<open>verify\<close>.
  It is a parameter here: a function from the submitted password and the stored hash
  to a boolean, or to the exception the library raises.
\<close>

type_synonym pwd_context = "string \<Rightarrow> string \<Rightarrow> exn + bool"

definition verify_password :: "pwd_context \<Rightarrow> string \<Rightarrow> string \<Rightarrow> exn + bool" where
  "verify_password ctx plain_password hashed_password = ctx plain_password hashed_password"

text \<open>
  The calls of \<^verbatim>\<open>verify_password\<close> are observable: a caller that wants its calls
  counted applies the function through \<open>call_verify_password\<close>, which appends the
  arguments of the call to the list of calls made so far.
\<close>

type_synonym hasher_calls = "(string \<times> string) list"

definition call_verify_password ::
  "pwd_context \<Rightarrow> string \<Rightarrow> string \<Rightarrow> hasher_calls \<Rightarrow> (exn + bool) \<times> hasher_calls" where
  "call_verify_password ctx plain_password hashed_password calls =
     (verify_password ctx plain_password hashed_password,
      calls @ [(plain_password, hashed_password)])"

text \<open>
  A context to run the model on concrete tables. Like the library, it raises on a
  stored string that no configured scheme identifies (argon2 hashes start with
  \<^verbatim>\<open>$argon2\<close>); the digest itself is replaced by the password in clear, so this
  context says nothing about argon2.
\<close>

definition clear_context :: pwd_context where
  "clear_context plain_password hashed_password =
     (if take 7 hashed_password \<noteq> ''$argon2'' then Inl (HasherError ''hash could not be identified'')
      else Inr (hashed_password = ''$argon2id$'' @ plain_password))"

subsection \<open>The user table (\<^verbatim>\<open>src/users/models.py\<close>, \<^verbatim>\<open>src/users/crud.py\<close>)\<close>

record user =
  user_id :: int
  email :: string
  hashed_password :: string
  is_active :: bool

text \<open>
  The database is the list of rows of the \<^verbatim>\<open>users\<close> table together with the bound of
  the driver's integer type: a query with an integer parameter \<open>i\<close> outside
  \<open>- integer_limit \<le> i < integer_limit\<close> raises in the driver (\<open>2 ^ 63\<close> for the SQLite of
  the tests, \<open>2 ^ 31\<close> for an \<^verbatim>\<open>INTEGER\<close> column of PostgreSQL).
\<close>

record database =
  users :: "user list"
  integer_limit :: int

text \<open>\<^verbatim>\<open>select(User).where(...)\<close> followed by \<^verbatim>\<open>.scalars().first()\<close>.\<close>

definition get_user_by_email :: "database \<Rightarrow> string \<Rightarrow> user option" where
  "get_user_by_email db e = find (\<lambda>u. email u = e) (users db)"

definition get_user_by_id :: "database \<Rightarrow> int \<Rightarrow> exn + user option" where
  "get_user_by_id db i =
     (if i < - integer_limit db \<or> integer_limit db \<le> i then Inl DriverError
      else Inr (find (\<lambda>u. user_id u = i) (users db)))"

subsection \<open>Login (\<^verbatim>\<open>src/auth/service.py\<close>)\<close>

record Token =
  access_token :: token
  refresh_token :: token
  token_type :: string

text \<open>
  \<^verbatim>\<open>authenticate_user\<close> takes the list of hasher calls made so far and returns it
  with its own calls added.
\<close>

definition authenticate_user ::
  "pwd_context \<Rightarrow> database \<Rightarrow> string \<Rightarrow> string \<Rightarrow> hasher_calls \<Rightarrow> (exn + user option) \<times> hasher_calls" where
  "authenticate_user ctx db e password calls =
     (case get_user_by_email db e of
        None \<Rightarrow> (Inr None, calls)
      | Some u \<Rightarrow>
          (case call_verify_password ctx password (hashed_password u) calls of
             (Inl x, calls') \<Rightarrow> (Inl x, calls')
           | (Inr ok, calls') \<Rightarrow> (if \<not> ok then Inr None else Inr (Some u), calls')))"

text \<open>
  \<open>t_access\<close> and \<open>t_refresh\<close> are the clock readings of the two minting calls.
\<close>

definition login_user ::
  "pwd_context \<Rightarrow> settings \<Rightarrow> database \<Rightarrow> string \<Rightarrow> string \<Rightarrow> datetime \<Rightarrow> datetime \<Rightarrow> exn + Token" where
  "login_user ctx cfg db e password t_access t_refresh =
     (case fst (authenticate_user ctx db e password []) of
        Inl x \<Rightarrow> Inl x
      | Inr None \<Rightarrow> Inl (HTTPError (AuthenticationError ''Invalid email or password''))
      | Inr (Some u) \<Rightarrow>
          if \<not> is_active u then Inl (HTTPError InactiveUserError)
          else
            (case create_access_token cfg (user_id u) t_access of
               Inl x \<Rightarrow> Inl x
             | Inr a \<Rightarrow>
                 (case create_refresh_token cfg (user_id u) t_refresh of
                    Inl x \<Rightarrow> Inl x
                  | Inr r \<Rightarrow>
                      Inr \<lparr> access_token = a, refresh_token = r, token_type = ''bearer'' \<rparr>)))"

subsection \<open>Refresh and the token dependencies (\<^verbatim>\<open>src/auth/router.py\<close>, \<^verbatim>\<open>src/core/dependencies.py\<close>)\<close>

text \<open>
  \<open>t_decode\<close> is the clock at the decoding of the presented token, \<open>t_mint\<close> the clock
  at the minting of the new access token. The handler around \<^verbatim>\<open>decode_token\<close>
  catches every exception; \<^verbatim>\<open>int(token_payload.sub)\<close>, the lookup and the minting
  are evaluated after it, outside any handler.
\<close>

definition refresh :: "settings \<Rightarrow> database \<Rightarrow> token \<Rightarrow> datetime \<Rightarrow> datetime \<Rightarrow> exn + Token" where
  "refresh cfg db presented t_decode t_mint =
     (case decode_token cfg presented Refresh t_decode of
        Inl x \<Rightarrow>
          Inl (HTTPError (HTTPException HTTP_401_UNAUTHORIZED
                 (Text ''Invalid or expired refresh token'') []))
      | Inr token_payload \<Rightarrow>
          (case py_int (sub token_payload) of
             None \<Rightarrow> Inl ValueError
           | Some i \<Rightarrow>
               (case get_user_by_id db i of
                  Inl x \<Rightarrow> Inl x
                | Inr None \<Rightarrow>
                    Inl (HTTPError (HTTPException HTTP_401_UNAUTHORIZED
                           (Text ''User no longer exists or is inactive'') []))
                | Inr (Some u) \<Rightarrow>
                    if \<not> is_active u then
                      Inl (HTTPError (HTTPException HTTP_401_UNAUTHORIZED
                             (Text ''User no longer exists or is inactive'') []))
                    else
                      (case create_access_token cfg (user_id u) t_mint of
                         Inl x \<Rightarrow> Inl x
                       | Inr new_access_token \<Rightarrow>
                           Inr \<lparr> access_token = new_access_token,
                                 refresh_token = presented,
                                 token_type = ''bearer'' \<rparr>))))"

text \<open>
  \<^verbatim>\<open>get_current_user\<close> of \<^verbatim>\<open>src/core/dependencies.py\<close>: its handler catches
  \<^verbatim>\<open>JWTError\<close> only.
\<close>

definition get_current_user :: "settings \<Rightarrow> database \<Rightarrow> token \<Rightarrow> datetime \<Rightarrow> exn + user" where
  "get_current_user cfg db tok now =
     (case decode_token cfg tok Access now of
        Inl (JWTError m) \<Rightarrow>
          Inl (HTTPError (HTTPException HTTP_401_UNAUTHORIZED (Str_of m)
                 [(''WWW-Authenticate'', ''Bearer'')]))
      | Inl x \<Rightarrow> Inl x
      | Inr token_payload \<Rightarrow>
          (case py_int (sub token_payload) of
             None \<Rightarrow> Inl ValueError
           | Some i \<Rightarrow>
               (case get_user_by_id db i of
                  Inl x \<Rightarrow> Inl x
                | Inr None \<Rightarrow>
                    Inl (HTTPError (HTTPException HTTP_404_NOT_FOUND (Text ''User not found'') []))
                | Inr (Some u) \<Rightarrow> Inr u)))"

text \<open>\<^verbatim>\<open>get_current_user_for_logout\<close> of \<^verbatim>\<open>src/auth/router.py\<close>.\<close>

definition get_current_user_for_logout :: "settings \<Rightarrow> database \<Rightarrow> token \<Rightarrow> datetime \<Rightarrow> exn + user" where
  "get_current_user_for_logout cfg db tok now =
     (case decode_token cfg tok Access now of
        Inl (JWTError m) \<Rightarrow>
          Inl (HTTPError (HTTPException HTTP_401_UNAUTHORIZED (Str_of m)
                 [(''WWW-Authenticate'', ''Bearer'')]))
      | Inl x \<Rightarrow> Inl x
      | Inr token_payload \<Rightarrow>
          (case py_int (sub token_payload) of
             None \<Rightarrow> Inl ValueError
           | Some i \<Rightarrow>
               (case get_user_by_id db i of
                  Inl x \<Rightarrow> Inl x
                | Inr None \<Rightarrow>
                    Inl (HTTPError (HTTPException HTTP_404_NOT_FOUND (Text ''User not found'') []))
                | Inr (Some u) \<Rightarrow>
                    if \<not> is_active u then
                      Inl (HTTPError (HTTPException HTTP_403_FORBIDDEN (Text ''Inactive user account'') []))
                    else Inr u)))"

subsection \<open>A sample table and the two failure responses of refresh\<close>

text \<open>
  Three rows to run the definitions on, behind the SQLite driver of the tests: an
  active user, an inactive user, and a user whose stored hash is not a hash. The first
  two store the hash that \<open>clear_context\<close> accepts for the password \<^verbatim>\<open>P@ss1234\<close>.
\<close>

definition table_one :: database where
  "table_one =
     \<lparr> users =
         [\<lparr> user_id = 7, email = ''a@x.com'', hashed_password = ''$argon2id$P@ss1234'', is_active = True \<rparr>,
          \<lparr> user_id = 8, email = ''b@x.com'', hashed_password = ''$argon2id$P@ss1234'', is_active = False \<rparr>,
          \<lparr> user_id = 9, email = ''c@x.com'', hashed_password = ''not-a-hash'', is_active = True \<rparr>],
       integer_limit = 9223372036854775808 \<rparr>"

text \<open>The two \<^verbatim>\<open>HTTPException\<close>s that \<^verbatim>\<open>refresh\<close> raises, by name.\<close>

definition invalid_refresh_token :: exn where
  "invalid_refresh_token =
     HTTPError (HTTPException HTTP_401_UNAUTHORIZED (Text ''Invalid or expired refresh token'') [])"

definition user_gone_or_inactive :: exn where
  "user_gone_or_inactive =
     HTTPError (HTTPException HTTP_401_UNAUTHORIZED (Text ''User no longer exists or is inactive'') [])"

section \<open>Properties\<close>

subsection \<open>Timestamps\<close>

text \<open>Evaluation of \<open>bit_length\<close> on numerals.\<close>

lemma bit_length_0: "bit_length 0 = 0"
  by (simp add: bit_length.simps)

lemma bit_length_numeral: "bit_length (numeral k) = Suc (bit_length (numeral k div 2))"
  by (subst bit_length.simps) simp

lemma bit_length_Suc_0: "bit_length (Suc 0) = Suc 0"
  by (subst bit_length.simps) (simp add: bit_length_0)

lemmas bit_length_eval = bit_length_0 bit_length_Suc_0 bit_length_numeral




lemma timestamp_int_rounds_up:
  "timestamp_int 17179869183999999 = 17179869183"
  "timestamp_int 17179869184999999 = 17179869185"
  "timestamp_int 95617584000999999 = 95617584001"
  by (simp_all add: timestamp_int_def timestamp_seconds_def Let_def bit_length_eval)

subsection \<open>\<^verbatim>\<open>int(str(n))\<close> is \<open>n\<close>\<close>















text \<open>
  Control characters are not stripped, a no-break space is, and an underscore is
  accepted between digits only.
\<close>

lemma py_int_examples:
  "py_int [CHR 0x1C, CHR ''5''] = None"
  "py_int [CHR 0xA0, CHR ''7''] = Some 7"
  "py_int '' -1_204 '' = Some (- 1204)"
  "py_int ''1__2'' = None"
  "py_int ''abc'' = None"
  "py_int [] = None"
  by (simp_all add: py_int_def strip_def to_ascii_def is_space_def int_unsigned_def
      is_digit_def digit_val_def int_max_str_digits_def)

subsection \<open>Minted tokens and their validity window\<close>

text \<open>The definitions that an evaluation on concrete inputs unfolds.\<close>

lemmas eval_defs =
  decode_token_def create_refresh_token_def create_access_token_def jwt_encode_def
  default_settings_def TokenPayload_init_def Let_def timestamp_int_def timestamp_seconds_def
  bit_length_eval timedelta_days_def timedelta_minutes_def datetime_add_def datetime_min_def
  datetime_max_def py_str_def decimal_def str_nat.simps digit_char_def int_max_str_digits_def
  py_int_def strip_def to_ascii_def is_space_def int_unsigned_def is_digit_def digit_val_def
  get_user_by_id_def get_user_by_email_def table_one_def
  HTTPException_def HTTP_401_UNAUTHORIZED_def HTTP_403_FORBIDDEN_def HTTP_404_NOT_FOUND_def
  AuthenticationError_def InactiveUserError_def verify_password_def clear_context_def
  call_verify_password_def authenticate_user_def

lemma access_token_shape:
  assumes "create_access_token cfg s t = Inr tok"
  shows "\<exists>c delta. tok = Jws (ALGORITHM cfg) c (SECRET_KEY cfg)
           \<and> py_str s = Some (c_sub c) \<and> c_type c = ''access''
           \<and> c_iat c = timestamp_int (int t)
           \<and> timedelta_minutes (ACCESS_TOKEN_EXPIRE_MINUTES cfg) = Inr delta
           \<and> c_exp c = timestamp_int (int t + delta)"
  using assms
  by (auto simp: create_access_token_def jwt_encode_def datetime_add_def
      split: sum.splits option.splits if_splits)

lemma refresh_token_shape:
  assumes "create_refresh_token cfg s t = Inr tok"
  shows "\<exists>c delta. tok = Jws (ALGORITHM cfg) c (SECRET_KEY cfg)
           \<and> py_str s = Some (c_sub c) \<and> c_type c = ''refresh''
           \<and> c_iat c = timestamp_int (int t)
           \<and> timedelta_days (REFRESH_TOKEN_EXPIRE_DAYS cfg) = Inr delta
           \<and> c_exp c = timestamp_int (int t + delta)"
  using assms
  by (auto simp: create_refresh_token_def jwt_encode_def datetime_add_def
      split: sum.splits option.splits if_splits)

lemma decode_signed:
  "decode_token cfg (Jws (ALGORITHM cfg) c (SECRET_KEY cfg)) k now =
     (if c_exp c < int (now div 1000000) then Inl (JWTError (Invalid_token ExpiredSignatureError))
      else case TokenPayload_init c of
             None \<Rightarrow> Inl (JWTError Invalid_token_payload)
           | Some p \<Rightarrow> if type p \<noteq> k then Inl (JWTError (Invalid_token_type k (type p))) else Inr p)"
  by (simp add: decode_token_def)






text \<open>
  Outside these bounds the minted claims change: from \<open>2 ^ 34\<close> seconds on, a clock
  reading with \<open>999999\<close> microseconds gives \<open>iat\<close> and \<open>exp\<close> one second later than the
  whole seconds of the clock, and a sum past the last microsecond of the year 9999 makes
  the minting raise \<^verbatim>\<open>OverflowError\<close>.
\<close>

lemma minting_beyond_the_bounds:
  "create_access_token default_settings 7 95617584000999999 =
     Inr (Jws HS256
           \<lparr> c_sub = ''7'', c_exp = 95617585801, c_iat = 95617584001, c_type = ''access'' \<rparr>
           (SECRET_KEY default_settings))"
  "create_access_token default_settings 7 253402300799999999 = Inl OverflowError"
  "create_refresh_token default_settings 7 253402300799999999 = Inl OverflowError"
  by (simp_all add: eval_defs)

lemma decode_access_as_refresh:
  assumes "create_access_token cfg s t = Inr a"
  shows "decode_token cfg a Refresh t' = Inl (JWTError (Invalid_token ExpiredSignatureError))
       \<or> decode_token cfg a Refresh t' = Inl (JWTError (Invalid_token_type Refresh Access))"
proof -
  from access_token_shape [OF assms] obtain c
    where a: "a = Jws (ALGORITHM cfg) c (SECRET_KEY cfg)" and c: "c_type c = ''access''"
    by blast
  from c have "type (the (TokenPayload_init c)) = Access" "TokenPayload_init c \<noteq> None"
    by (simp_all add: TokenPayload_init_def)
  then show ?thesis unfolding a decode_signed by auto
qed

lemma decode_refresh_as_access:
  assumes "create_refresh_token cfg s t = Inr r"
  shows "decode_token cfg r Access t' = Inl (JWTError (Invalid_token ExpiredSignatureError))
       \<or> decode_token cfg r Access t' = Inl (JWTError (Invalid_token_type Access Refresh))"
proof -
  from refresh_token_shape [OF assms] obtain c
    where r: "r = Jws (ALGORITHM cfg) c (SECRET_KEY cfg)" and c: "c_type c = ''refresh''"
    by blast
  from c have "type (the (TokenPayload_init c)) = Refresh" "TokenPayload_init c \<noteq> None"
    by (simp_all add: TokenPayload_init_def)
  then show ?thesis unfolding r decode_signed by auto
qed

text \<open>
  Claim C7. An access token is never accepted where a refresh token is expected, and a
  refresh token never where an access token is expected, for every subject, every
  minting time, every decoding time and every configuration: whenever minting returns
  a token, decoding it with the other kind raises \<^verbatim>\<open>JWTError\<close>, with the expiry
  message when the token has expired and with the token type message otherwise.
\<close>

theorem C7_wrong_kind_rejected:
  "(create_access_token cfg s t = Inr a \<longrightarrow>
      decode_token cfg a Refresh t' = Inl (JWTError (Invalid_token ExpiredSignatureError))
      \<or> decode_token cfg a Refresh t' = Inl (JWTError (Invalid_token_type Refresh Access)))
   \<and> (create_refresh_token cfg s t = Inr r \<longrightarrow>
      decode_token cfg r Access t' = Inl (JWTError (Invalid_token ExpiredSignatureError))
      \<or> decode_token cfg r Access t' = Inl (JWTError (Invalid_token_type Access Refresh)))"
  using decode_access_as_refresh [of cfg s t a t'] decode_refresh_as_access [of cfg s t r t']
  by blast

theorem C7_wrong_kind_rejected_witness:
  "create_access_token default_settings 7 1000000 =
     Inr (Jws HS256 \<lparr> c_sub = ''7'', c_exp = 1801, c_iat = 1, c_type = ''access'' \<rparr>
           (SECRET_KEY default_settings))
   \<and> create_refresh_token default_settings 7 1000000 =
     Inr (Jws HS256 \<lparr> c_sub = ''7'', c_exp = 604801, c_iat = 1, c_type = ''refresh'' \<rparr>
           (SECRET_KEY default_settings))
   \<and> decode_token default_settings
       (Jws HS256 \<lparr> c_sub = ''7'', c_exp = 1801, c_iat = 1, c_type = ''access'' \<rparr>
          (SECRET_KEY default_settings)) Refresh 2000000
       = Inl (JWTError (Invalid_token_type Refresh Access))
   \<and> decode_token default_settings
       (Jws HS256 \<lparr> c_sub = ''7'', c_exp = 604801, c_iat = 1, c_type = ''refresh'' \<rparr>
          (SECRET_KEY default_settings)) Access 2000000
       = Inl (JWTError (Invalid_token_type Access Refresh))"
  using C7_wrong_kind_rejected [of default_settings 7 1000000
      "Jws HS256 \<lparr> c_sub = ''7'', c_exp = 1801, c_iat = 1, c_type = ''access'' \<rparr>
           (SECRET_KEY default_settings)" 2000000
      "Jws HS256 \<lparr> c_sub = ''7'', c_exp = 604801, c_iat = 1, c_type = ''refresh'' \<rparr>
           (SECRET_KEY default_settings)"]
  by (simp add: eval_defs)

subsection \<open>Login\<close>

lemma authenticate_user_result:
  "fst (authenticate_user ctx db e p calls) =
     (case get_user_by_email db e of
        None \<Rightarrow> Inr None
      | Some u \<Rightarrow> (case verify_password ctx p (hashed_password u) of
                    Inl x \<Rightarrow> Inl x
                  | Inr ok \<Rightarrow> if ok then Inr (Some u) else Inr None))"
  by (simp add: authenticate_user_def call_verify_password_def split: option.split sum.split)

lemma authenticate_user_calls:
  "snd (authenticate_user ctx db e p calls) =
     (case get_user_by_email db e of
        None \<Rightarrow> calls
      | Some u \<Rightarrow> calls @ [(p, hashed_password u)])"
  by (simp add: authenticate_user_def call_verify_password_def split: option.split sum.split)

lemma table_one_rows:
  "get_user_by_email table_one ''a@x.com'' = Some (users table_one ! 0)"
  "get_user_by_email table_one ''b@x.com'' = Some (users table_one ! 1)"
  "get_user_by_email table_one ''c@x.com'' = Some (users table_one ! 2)"
  "get_user_by_email table_one ''nobody@x.com'' = None"
  by (simp_all add: get_user_by_email_def table_one_def)

text \<open>
  Claim C2 against the code. Let \<open>e1\<close> be an email with a row and \<open>e2\<close> an email
  without one. The login with \<open>e2\<close> raises \<^verbatim>\<open>AuthenticationError\<close> with the detail
  \<^verbatim>\<open>Invalid email or password\<close>. The login with \<open>e1\<close> raises the same exception, with
  the same status, detail and headers, when the password context returns \<^verbatim>\<open>False\<close> on
  the stored hash. When the context raises on the stored hash instead (passlib does so
  on a string that no configured scheme identifies), the login with \<open>e1\<close> raises that
  exception, whatever the password: the two logins are then told apart.
\<close>

theorem C2_login_failures:
  assumes "get_user_by_email db e1 = Some u" and "get_user_by_email db e2 = None"
  shows "login_user ctx cfg db e2 p2 ta' tr' =
           Inl (HTTPError (AuthenticationError ''Invalid email or password''))
       \<and> (verify_password ctx p1 (hashed_password u) = Inr False \<longrightarrow>
            login_user ctx cfg db e1 p1 ta tr =
              Inl (HTTPError (AuthenticationError ''Invalid email or password'')))
       \<and> (\<forall>x. verify_password ctx p1 (hashed_password u) = Inl x \<longrightarrow>
            login_user ctx cfg db e1 p1 ta tr = Inl x)"
  using assms by (simp add: login_user_def authenticate_user_result)

theorem C2_login_failures_witness:
  "get_user_by_email table_one ''c@x.com'' = Some (users table_one ! 2)
   \<and> get_user_by_email table_one ''a@x.com'' = Some (users table_one ! 0)
   \<and> get_user_by_email table_one ''nobody@x.com'' = None
   \<and> verify_password clear_context ''wrong'' (hashed_password (users table_one ! 0)) = Inr False
   \<and> verify_password clear_context ''wrong'' (hashed_password (users table_one ! 2)) =
       Inl (HasherError ''hash could not be identified'')
   \<and> login_user clear_context default_settings table_one ''nobody@x.com'' ''wrong'' 1000000 1000001 =
       Inl (HTTPError (AuthenticationError ''Invalid email or password''))
   \<and> login_user clear_context default_settings table_one ''a@x.com'' ''wrong'' 1000000 1000001 =
       Inl (HTTPError (AuthenticationError ''Invalid email or password''))
   \<and> login_user clear_context default_settings table_one ''c@x.com'' ''wrong'' 1000000 1000001 =
       Inl (HasherError ''hash could not be identified'')"
proof -
  have a: "verify_password clear_context ''wrong'' (hashed_password (users table_one ! 0)) = Inr False"
    by (simp add: verify_password_def clear_context_def table_one_def)
  have c: "verify_password clear_context ''wrong'' (hashed_password (users table_one ! 2)) =
       Inl (HasherError ''hash could not be identified'')"
    by (simp add: verify_password_def clear_context_def table_one_def)
  from C2_login_failures [OF table_one_rows(1) table_one_rows(4),
      of clear_context default_settings "''wrong''" 1000000 1000001 "''wrong''" 1000000 1000001]
    C2_login_failures [OF table_one_rows(3) table_one_rows(4),
      of clear_context default_settings "''wrong''" 1000000 1000001 "''wrong''" 1000000 1000001]
    a c table_one_rows
  show ?thesis by simp
qed

text \<open>
  Claim C3, as the code has it. When the email has no row, \<^verbatim>\<open>authenticate_user\<close>
  returns \<^verbatim>\<open>None\<close> straight after the lookup and leaves the list of hasher calls as it
  was: there is no call on a dummy hash. When the email has a row, it makes exactly one
  call, with the submitted password and the stored hash of that row, and returns what
  that call decides. A missing row and a password that the hasher rejects both end in
  the same \<^verbatim>\<open>AuthenticationError\<close> of \<^verbatim>\<open>login_user\<close>.
\<close>

theorem C3_hasher_calls:
  "(get_user_by_email db e = None \<longrightarrow>
      authenticate_user ctx db e p calls = (Inr None, calls)
      \<and> login_user ctx cfg db e p ta tr =
          Inl (HTTPError (AuthenticationError ''Invalid email or password'')))
   \<and> (\<forall>u. get_user_by_email db e = Some u \<longrightarrow>
      authenticate_user ctx db e p calls =
        (case verify_password ctx p (hashed_password u) of
           Inl x \<Rightarrow> Inl x
         | Inr ok \<Rightarrow> if ok then Inr (Some u) else Inr None,
         calls @ [(p, hashed_password u)])
      \<and> (verify_password ctx p (hashed_password u) = Inr False \<longrightarrow>
           login_user ctx cfg db e p ta tr =
             Inl (HTTPError (AuthenticationError ''Invalid email or password''))))"
  by (auto simp: login_user_def authenticate_user_result authenticate_user_def
      call_verify_password_def split: sum.splits)

theorem C3_hasher_calls_witness:
  "get_user_by_email table_one ''nobody@x.com'' = None
   \<and> get_user_by_email table_one ''a@x.com'' = Some (users table_one ! 0)
   \<and> verify_password clear_context ''wrong'' ''$argon2id$P@ss1234'' = Inr False
   \<and> authenticate_user clear_context table_one ''nobody@x.com'' ''wrong'' [] = (Inr None, [])
   \<and> authenticate_user clear_context table_one ''a@x.com'' ''wrong'' [] =
       (Inr None, [(''wrong'', ''$argon2id$P@ss1234'')])
   \<and> login_user clear_context default_settings table_one ''nobody@x.com'' ''wrong'' 1000000 1000001 =
       Inl (HTTPError (AuthenticationError ''Invalid email or password''))
   \<and> login_user clear_context default_settings table_one ''a@x.com'' ''wrong'' 1000000 1000001 =
       Inl (HTTPError (AuthenticationError ''Invalid email or password''))"
proof -
  have v: "verify_password clear_context ''wrong'' ''$argon2id$P@ss1234'' = Inr False"
    by (simp add: verify_password_def clear_context_def)
  have h: "hashed_password (users table_one ! 0) = ''$argon2id$P@ss1234''"
    by (simp add: table_one_def)
  from C3_hasher_calls [of table_one "''nobody@x.com''" clear_context "''wrong''" "[]"
        default_settings 1000000 1000001]
    C3_hasher_calls [of table_one "''a@x.com''" clear_context "''wrong''" "[]"
        default_settings 1000000 1000001]
    table_one_rows v h
  show ?thesis by simp
qed

text \<open>
  The claim fails on an email without a row: the failure is returned and no call to the
  hasher has been made.
\<close>

theorem C3_no_call_counterexample:
  "authenticate_user clear_context table_one ''nobody@x.com'' ''P@ss1234'' [] = (Inr None, [])"
  by (simp add: authenticate_user_def get_user_by_email_def table_one_def)

text \<open>
  Claim C6, as the code has it. For a row whose active flag is false, a login with a
  password the context accepts raises \<^verbatim>\<open>InactiveUserError\<close>, a class of its own
  with the detail \<^verbatim>\<open>Inactive user account\<close>; it is a subclass of
  \<^verbatim>\<open>AuthenticationError\<close> and carries the same status 401 and the same headers as the
  credential failure, from which it differs in class and detail only.
\<close>

theorem C6_inactive_login:
  assumes "get_user_by_email db e = Some u"
    and "verify_password ctx p (hashed_password u) = Inr True"
    and "\<not> is_active u"
  shows "login_user ctx cfg db e p ta tr = Inl (HTTPError InactiveUserError)
       \<and> exc_class InactiveUserError = InactiveUserError_class
       \<and> exc_class (AuthenticationError ''Invalid email or password'') = AuthenticationError_class
       \<and> detail InactiveUserError = Text ''Inactive user account''
       \<and> status_code InactiveUserError = HTTP_401_UNAUTHORIZED
       \<and> status_code InactiveUserError = status_code (AuthenticationError ''Invalid email or password'')
       \<and> headers InactiveUserError = headers (AuthenticationError ''Invalid email or password'')"
  using assms
  by (simp add: login_user_def authenticate_user_result InactiveUserError_def
      AuthenticationError_def HTTPException_def)

theorem C6_inactive_login_witness:
  "get_user_by_email table_one ''b@x.com'' = Some (users table_one ! 1)
   \<and> verify_password clear_context ''P@ss1234'' (hashed_password (users table_one ! 1)) = Inr True
   \<and> \<not> is_active (users table_one ! 1)
   \<and> login_user clear_context default_settings table_one ''b@x.com'' ''P@ss1234'' 1000000 1000001 =
       Inl (HTTPError InactiveUserError)"
proof -
  have b: "verify_password clear_context ''P@ss1234'' (hashed_password (users table_one ! 1)) = Inr True"
    by (simp add: verify_password_def clear_context_def table_one_def)
  have c: "\<not> is_active (users table_one ! 1)"
    by (simp add: table_one_def)
  from C6_inactive_login [OF table_one_rows(2) b c] table_one_rows(2) b c show ?thesis by blast
qed

text \<open>
  The claim's rendering fails: the inactive-account failure has status 401, not the
  forbidden status 403.
\<close>

theorem C6_unauthorized_counterexample:
  "login_user clear_context default_settings table_one ''b@x.com'' ''P@ss1234'' 1000000 1000001 =
     Inl (HTTPError \<lparr> exc_class = InactiveUserError_class, status_code = 401,
                       detail = Text ''Inactive user account'',
                       headers = [(''WWW-Authenticate'', ''Bearer'')] \<rparr>)
   \<and> status_code InactiveUserError \<noteq> HTTP_403_FORBIDDEN"
  by (simp add: login_user_def authenticate_user_result get_user_by_email_def table_one_def
      verify_password_def clear_context_def InactiveUserError_def AuthenticationError_def
      HTTPException_def HTTP_401_UNAUTHORIZED_def HTTP_403_FORBIDDEN_def)

text \<open>
  Claim C8 against the code. When the password context raises on the stored hash, the
  exception passes through \<^verbatim>\<open>verify_password\<close>, \<^verbatim>\<open>authenticate_user\<close> and
  \<^verbatim>\<open>login_user\<close> unchanged: it is neither turned into \<^verbatim>\<open>False\<close> or \<^verbatim>\<open>None\<close>, as
  the docstrings of the first two say, nor into the generic credential failure.
\<close>

theorem C8_hasher_exception_escapes:
  assumes "get_user_by_email db e = Some u"
    and "verify_password ctx p (hashed_password u) = Inl x"
  shows "fst (authenticate_user ctx db e p calls) = Inl x
       \<and> login_user ctx cfg db e p ta tr = Inl x"
  using assms by (simp add: login_user_def authenticate_user_result)

theorem C8_hasher_exception_escapes_witness:
  "get_user_by_email table_one ''c@x.com'' = Some (users table_one ! 2)
   \<and> verify_password clear_context ''P@ss1234'' (hashed_password (users table_one ! 2)) =
       Inl (HasherError ''hash could not be identified'')
   \<and> fst (authenticate_user clear_context table_one ''c@x.com'' ''P@ss1234'' []) =
       Inl (HasherError ''hash could not be identified'')
   \<and> login_user clear_context default_settings table_one ''c@x.com'' ''P@ss1234'' 1000000 1000001 =
       Inl (HasherError ''hash could not be identified'')"
proof -
  have b: "verify_password clear_context ''P@ss1234'' (hashed_password (users table_one ! 2)) =
       Inl (HasherError ''hash could not be identified'')"
    by (simp add: verify_password_def clear_context_def table_one_def)
  from C8_hasher_exception_escapes [OF table_one_rows(3) b] table_one_rows(3) b
  show ?thesis by blast
qed

subsection \<open>Refresh\<close>


lemma refresh_decode_failure:
  "decode_token cfg presented Refresh t_decode = Inl x \<Longrightarrow>
     refresh cfg db presented t_decode t_mint = Inl invalid_refresh_token"
  by (simp add: refresh_def invalid_refresh_token_def)





text \<open>
  Claim C5, as the code has it. Every failure of the token itself (a string that is not
  a JWS, a signature made with another key, a minted access token, a minted refresh
  token that has expired, and in general every exception of \<^verbatim>\<open>decode_token\<close>) raises
  the 401 response with detail \<^verbatim>\<open>Invalid or expired refresh token\<close>. A subject that
  resolves to no row and a row whose active flag is false both raise one other 401
  response, with detail \<^verbatim>\<open>User no longer exists or is inactive\<close>.
\<close>

theorem C5_refresh_failures:
  "refresh cfg db (NotJws w) t_decode t_mint = Inl invalid_refresh_token
   \<and> (k \<noteq> SECRET_KEY cfg \<longrightarrow> refresh cfg db (Jws a c k) t_decode t_mint = Inl invalid_refresh_token)
   \<and> (create_access_token cfg s t = Inr tok \<longrightarrow>
        refresh cfg db tok t_decode t_mint = Inl invalid_refresh_token)
   \<and> (create_refresh_token cfg s t = Inr (Jws a c k) \<and> c_exp c < int (t_decode div 1000000) \<longrightarrow>
        refresh cfg db (Jws a c k) t_decode t_mint = Inl invalid_refresh_token)
   \<and> (isl (decode_token cfg presented Refresh t_decode) \<longrightarrow>
        refresh cfg db presented t_decode t_mint = Inl invalid_refresh_token)
   \<and> (decode_token cfg presented Refresh t_decode = Inr p \<and> py_int (sub p) = Some i
        \<and> get_user_by_id db i = Inr None \<longrightarrow>
        refresh cfg db presented t_decode t_mint = Inl user_gone_or_inactive)
   \<and> (decode_token cfg presented Refresh t_decode = Inr p \<and> py_int (sub p) = Some i
        \<and> get_user_by_id db i = Inr (Some u) \<and> \<not> is_active u \<longrightarrow>
        refresh cfg db presented t_decode t_mint = Inl user_gone_or_inactive)"
proof -
  have 1: "refresh cfg db (NotJws w) t_decode t_mint = Inl invalid_refresh_token"
    by (rule refresh_decode_failure [of _ _ _ "JWTError (Invalid_token MalformedJws)"])
       (simp add: decode_token_def)
  have 2: "k \<noteq> SECRET_KEY cfg \<longrightarrow> refresh cfg db (Jws a c k) t_decode t_mint = Inl invalid_refresh_token"
    by (simp add: refresh_def decode_token_def invalid_refresh_token_def)
  have 3: "create_access_token cfg s t = Inr tok \<longrightarrow>
        refresh cfg db tok t_decode t_mint = Inl invalid_refresh_token"
    using decode_access_as_refresh [of cfg s t tok t_decode]
    by (auto intro: refresh_decode_failure)
  have 4: "create_refresh_token cfg s t = Inr (Jws a c k) \<and> c_exp c < int (t_decode div 1000000) \<longrightarrow>
        refresh cfg db (Jws a c k) t_decode t_mint = Inl invalid_refresh_token"
    by (simp add: refresh_def decode_token_def invalid_refresh_token_def)
  have 5: "isl (decode_token cfg presented Refresh t_decode) \<longrightarrow>
        refresh cfg db presented t_decode t_mint = Inl invalid_refresh_token"
    by (auto simp: isl_def intro: refresh_decode_failure)
  have 6: "decode_token cfg presented Refresh t_decode = Inr p \<and> py_int (sub p) = Some i
        \<and> get_user_by_id db i = Inr None \<longrightarrow>
        refresh cfg db presented t_decode t_mint = Inl user_gone_or_inactive"
    by (simp add: refresh_def user_gone_or_inactive_def)
  have 7: "decode_token cfg presented Refresh t_decode = Inr p \<and> py_int (sub p) = Some i
        \<and> get_user_by_id db i = Inr (Some u) \<and> \<not> is_active u \<longrightarrow>
        refresh cfg db presented t_decode t_mint = Inl user_gone_or_inactive"
    by (simp add: refresh_def user_gone_or_inactive_def)
  from 1 2 3 4 5 6 7 show ?thesis by blast
qed

theorem C5_refresh_failures_witness:
  "''other-key'' \<noteq> SECRET_KEY default_settings
   \<and> create_access_token default_settings 7 1000000 =
        Inr (Jws HS256 \<lparr> c_sub = ''7'', c_exp = 1801, c_iat = 1, c_type = ''access'' \<rparr>
              (SECRET_KEY default_settings))
   \<and> create_refresh_token default_settings 7 1000000 =
        Inr (Jws HS256 \<lparr> c_sub = ''7'', c_exp = 604801, c_iat = 1, c_type = ''refresh'' \<rparr>
              (SECRET_KEY default_settings))
   \<and> c_exp \<lparr> c_sub = ''7'', c_exp = 604801, c_iat = 1, c_type = ''refresh'' \<rparr>
        < int (604802000000 div 1000000)
   \<and> isl (decode_token default_settings (NotJws ''malformed'') Refresh 2000000)
   \<and> decode_token default_settings
        (Jws HS256 \<lparr> c_sub = ''5'', c_exp = 604801, c_iat = 1, c_type = ''refresh'' \<rparr>
           (SECRET_KEY default_settings)) Refresh 2000000 =
        Inr \<lparr> sub = ''5'', exp = 604801, iat = 1, type = Refresh \<rparr>
   \<and> py_int ''5'' = Some 5 \<and> get_user_by_id table_one 5 = Inr None
   \<and> decode_token default_settings
        (Jws HS256 \<lparr> c_sub = ''8'', c_exp = 604801, c_iat = 1, c_type = ''refresh'' \<rparr>
           (SECRET_KEY default_settings)) Refresh 2000000 =
        Inr \<lparr> sub = ''8'', exp = 604801, iat = 1, type = Refresh \<rparr>
   \<and> py_int ''8'' = Some 8 \<and> get_user_by_id table_one 8 = Inr (Some (users table_one ! 1))
   \<and> \<not> is_active (users table_one ! 1)
   \<and> refresh default_settings table_one (NotJws ''malformed'') 2000000 3000000 = Inl invalid_refresh_token
   \<and> refresh default_settings table_one
         (Jws HS256 \<lparr> c_sub = ''7'', c_exp = 604801, c_iat = 1, c_type = ''refresh'' \<rparr> ''other-key'')
         2000000 3000000 = Inl invalid_refresh_token
   \<and> refresh default_settings table_one
         (Jws HS256 \<lparr> c_sub = ''7'', c_exp = 1801, c_iat = 1, c_type = ''access'' \<rparr>
            (SECRET_KEY default_settings))
         2000000 3000000 = Inl invalid_refresh_token
   \<and> refresh default_settings table_one
         (Jws HS256 \<lparr> c_sub = ''7'', c_exp = 604801, c_iat = 1, c_type = ''refresh'' \<rparr>
            (SECRET_KEY default_settings))
         604802000000 604803000000 = Inl invalid_refresh_token
   \<and> refresh default_settings table_one
         (Jws HS256 \<lparr> c_sub = ''5'', c_exp = 604801, c_iat = 1, c_type = ''refresh'' \<rparr>
            (SECRET_KEY default_settings))
         2000000 3000000 = Inl user_gone_or_inactive
   \<and> refresh default_settings table_one
         (Jws HS256 \<lparr> c_sub = ''8'', c_exp = 604801, c_iat = 1, c_type = ''refresh'' \<rparr>
            (SECRET_KEY default_settings))
         2000000 3000000 = Inl user_gone_or_inactive"
proof -
  let ?key = "SECRET_KEY default_settings"
  let ?A = "Jws HS256 \<lparr> c_sub = ''7'', c_exp = 1801, c_iat = 1, c_type = ''access'' \<rparr> ?key"
  let ?c7 = "\<lparr> c_sub = ''7'', c_exp = 604801, c_iat = 1, c_type = ''refresh'' \<rparr>"
  let ?R5 = "Jws HS256 \<lparr> c_sub = ''5'', c_exp = 604801, c_iat = 1, c_type = ''refresh'' \<rparr> ?key"
  let ?R8 = "Jws HS256 \<lparr> c_sub = ''8'', c_exp = 604801, c_iat = 1, c_type = ''refresh'' \<rparr> ?key"
  have a: "''other-key'' \<noteq> ?key"
    by (simp add: default_settings_def)
  have ma: "create_access_token default_settings 7 1000000 = Inr ?A"
    by (simp add: eval_defs)
  have mr: "create_refresh_token default_settings 7 1000000 = Inr (Jws HS256 ?c7 ?key)"
    by (simp add: eval_defs)
  have b: "c_exp ?c7 < int (604802000000 div 1000000)"
    by simp
  have c: "isl (decode_token default_settings (NotJws ''malformed'') Refresh 2000000)"
    by (simp add: decode_token_def)
  have d5: "decode_token default_settings ?R5 Refresh 2000000 =
        Inr \<lparr> sub = ''5'', exp = 604801, iat = 1, type = Refresh \<rparr>"
    by (simp add: decode_token_def default_settings_def TokenPayload_init_def)
  have d8: "decode_token default_settings ?R8 Refresh 2000000 =
        Inr \<lparr> sub = ''8'', exp = 604801, iat = 1, type = Refresh \<rparr>"
    by (simp add: decode_token_def default_settings_def TokenPayload_init_def)
  have i5: "py_int ''5'' = Some 5" and i8: "py_int ''8'' = Some 8"
    by (simp_all add: py_int_def strip_def to_ascii_def is_space_def int_unsigned_def
        is_digit_def digit_val_def int_max_str_digits_def)
  have g5: "get_user_by_id table_one 5 = Inr None"
    and g8: "get_user_by_id table_one 8 = Inr (Some (users table_one ! 1))"
    and n8: "\<not> is_active (users table_one ! 1)"
    by (simp_all add: get_user_by_id_def table_one_def)
  note T = C5_refresh_failures [of default_settings table_one "''malformed''" _ _
      "''other-key''" HS256 ?c7 7 1000000 ?A]
  from T [of 2000000 3000000 "NotJws ''malformed''"] a ma c
  have e1: "refresh default_settings table_one (NotJws ''malformed'') 2000000 3000000 = Inl invalid_refresh_token"
    and e2: "refresh default_settings table_one (Jws HS256 ?c7 ''other-key'')
         2000000 3000000 = Inl invalid_refresh_token"
    and e3: "refresh default_settings table_one ?A 2000000 3000000 = Inl invalid_refresh_token"
    by blast+
  from C5_refresh_failures [of default_settings table_one "''malformed''"
      604802000000 604803000000 ?key HS256 ?c7 7 1000000 ?A] mr b
  have e4: "refresh default_settings table_one (Jws HS256 ?c7 ?key)
         604802000000 604803000000 = Inl invalid_refresh_token"
    by blast
  from T [of 2000000 3000000 ?R5 "\<lparr> sub = ''5'', exp = 604801, iat = 1, type = Refresh \<rparr>" 5]
    d5 i5 g5
  have e5: "refresh default_settings table_one ?R5 2000000 3000000 = Inl user_gone_or_inactive"
    by simp
  from T [of 2000000 3000000 ?R8 "\<lparr> sub = ''8'', exp = 604801, iat = 1, type = Refresh \<rparr>" 8
      "users table_one ! 1"] d8 i8 g8 n8
  have e8: "refresh default_settings table_one ?R8 2000000 3000000 = Inl user_gone_or_inactive"
    by simp
  from a ma mr b c d5 d8 i5 i8 g5 g8 n8 e1 e2 e3 e4 e5 e8 show ?thesis by blast
qed

text \<open>
  The claim fails: a malformed token and the unexpired refresh token of an inactive user
  get responses with different details.
\<close>

theorem C5_distinct_detail_counterexample:
  "refresh default_settings table_one (NotJws ''malformed'') 2000000 3000000 =
     Inl (HTTPError \<lparr> exc_class = HTTPException_class, status_code = 401,
                 detail = Text ''Invalid or expired refresh token'', headers = [] \<rparr>)
   \<and> create_refresh_token default_settings 8 1000000 =
     Inr (Jws HS256 \<lparr> c_sub = ''8'', c_exp = 604801, c_iat = 1, c_type = ''refresh'' \<rparr>
           (SECRET_KEY default_settings))
   \<and> refresh default_settings table_one
       (Jws HS256 \<lparr> c_sub = ''8'', c_exp = 604801, c_iat = 1, c_type = ''refresh'' \<rparr>
          (SECRET_KEY default_settings)) 2000000 3000000 =
     Inl (HTTPError \<lparr> exc_class = HTTPException_class, status_code = 401,
                 detail = Text ''User no longer exists or is inactive'', headers = [] \<rparr>)"
  by (simp add: refresh_def eval_defs)

subsection \<open>The subject of a token\<close>

text \<open>
  Claim C10. \<^verbatim>\<open>decode_token\<close> returns the payload of every token that is signed with
  the configured key and algorithm, not expired and of the expected kind, whatever
  string its subject is. When \<^verbatim>\<open>int\<close> raises on that string, the \<^verbatim>\<open>int\<close> call in
  \<^verbatim>\<open>get_current_user\<close>, \<^verbatim>\<open>get_current_user_for_logout\<close> and \<^verbatim>\<open>refresh\<close> raises
  \<^verbatim>\<open>ValueError\<close>, which none of them turns into a 401 response.
\<close>

theorem C10_subject_not_validated:
  assumes "int (now div 1000000) \<le> e"
  shows "decode_token cfg
           (Jws (ALGORITHM cfg) \<lparr> c_sub = x, c_exp = e, c_iat = i, c_type = ''access'' \<rparr> (SECRET_KEY cfg))
           Access now = Inr \<lparr> sub = x, exp = e, iat = i, type = Access \<rparr>
       \<and> decode_token cfg
           (Jws (ALGORITHM cfg) \<lparr> c_sub = x, c_exp = e, c_iat = i, c_type = ''refresh'' \<rparr> (SECRET_KEY cfg))
           Refresh now = Inr \<lparr> sub = x, exp = e, iat = i, type = Refresh \<rparr>
       \<and> (py_int x = None \<longrightarrow>
            get_current_user cfg db
              (Jws (ALGORITHM cfg) \<lparr> c_sub = x, c_exp = e, c_iat = i, c_type = ''access'' \<rparr> (SECRET_KEY cfg))
              now = Inl ValueError
          \<and> get_current_user_for_logout cfg db
              (Jws (ALGORITHM cfg) \<lparr> c_sub = x, c_exp = e, c_iat = i, c_type = ''access'' \<rparr> (SECRET_KEY cfg))
              now = Inl ValueError
          \<and> refresh cfg db
              (Jws (ALGORITHM cfg) \<lparr> c_sub = x, c_exp = e, c_iat = i, c_type = ''refresh'' \<rparr> (SECRET_KEY cfg))
              now t_mint = Inl ValueError)"
  using assms
  by (simp add: decode_token_def TokenPayload_init_def get_current_user_def
      get_current_user_for_logout_def refresh_def)

theorem C10_subject_not_validated_witness:
  "int (2000000 div 1000000) \<le> 1801 \<and> py_int ''abc'' = None
   \<and> decode_token default_settings
       (Jws HS256 \<lparr> c_sub = ''abc'', c_exp = 1801, c_iat = 1, c_type = ''access'' \<rparr>
          (SECRET_KEY default_settings))
       Access 2000000 = Inr \<lparr> sub = ''abc'', exp = 1801, iat = 1, type = Access \<rparr>
   \<and> get_current_user default_settings table_one
       (Jws HS256 \<lparr> c_sub = ''abc'', c_exp = 1801, c_iat = 1, c_type = ''access'' \<rparr>
          (SECRET_KEY default_settings))
       2000000 = Inl ValueError
   \<and> get_current_user_for_logout default_settings table_one
       (Jws HS256 \<lparr> c_sub = ''abc'', c_exp = 1801, c_iat = 1, c_type = ''access'' \<rparr>
          (SECRET_KEY default_settings))
       2000000 = Inl ValueError
   \<and> refresh default_settings table_one
       (Jws HS256 \<lparr> c_sub = ''abc'', c_exp = 1801, c_iat = 1, c_type = ''refresh'' \<rparr>
          (SECRET_KEY default_settings))
       2000000 3000000 = Inl ValueError"
proof -
  have a: "int (2000000 div 1000000) \<le> 1801" by simp
  have b: "py_int ''abc'' = None"
    by (simp add: py_int_def strip_def to_ascii_def is_space_def int_unsigned_def is_digit_def)
  have c: "ALGORITHM default_settings = HS256" by (simp add: default_settings_def)
  from C10_subject_not_validated [OF a, of default_settings "''abc''" 1 table_one 3000000] a b c
  show ?thesis by simp
qed

end
